theory Spec2Isabelle
  imports Complex_Main "HOL-Library.Sublist"
begin

section \<open>Strings as Python sees them\<close>

text \<open>
  A Python \<open>str\<close> is modelled as a \<open>string\<close> whose characters are code points below 256.
  White space (\<open>str.strip\<close>, the class \<open>\s\<close> of \<open>re\<close>) is the set of code points below 256
  for which \<open>str.isspace\<close> holds.
\<close>

definition is_space :: "char \<Rightarrow> bool" where
  "is_space c = ((of_char c :: nat) \<in> {9, 10, 11, 12, 13, 28, 29, 30, 31, 32, 133, 160})"

text \<open>
  \<open>re.IGNORECASE\<close>: the letters of the program's patterns (\<open>SELECT\<close>, \<open>sql\<close>) are ASCII
  letters, and among the code points below 256 such a letter matches its own two cases
  only. So a text is compared with a pattern in upper case after its ASCII letters are
  put in upper case.
\<close>

definition casefold_char :: "char \<Rightarrow> char" where
  "casefold_char c =
     (let n = (of_char c :: nat) in if 97 \<le> n \<and> n \<le> 122 then char_of (n - 32) else c)"

definition casefold :: "string \<Rightarrow> string" where
  "casefold s = map casefold_char s"

text \<open>
  \<open>str.upper\<close>, as the list of the code points of its result, which may lie above 255 and
  which the program only searches for a word: the letters \<open>a\<close> to \<open>z\<close> and the Latin-1
  letters from U+00E0 to U+00FE (U+00F7, the division sign, apart) move down by 32,
  U+00DF (sharp s) becomes \<open>SS\<close>, U+00B5 (micro sign) becomes U+039C, U+00FF becomes
  U+0178, and every other code point below 256 is kept.
\<close>

definition upper_codes :: "char \<Rightarrow> nat list" where
  "upper_codes c =
     (let n = (of_char c :: nat) in
      if 97 \<le> n \<and> n \<le> 122 then [n - 32]
      else if n = 223 then [83, 83]
      else if n = 181 then [924]
      else if n = 255 then [376]
      else if 224 \<le> n \<and> n \<le> 254 \<and> n \<noteq> 247 then [n - 32]
      else [n])"

definition upper :: "string \<Rightarrow> nat list" where
  "upper s = concat (map upper_codes s)"

text \<open>The code points of a word of the program.\<close>

definition codes :: "string \<Rightarrow> nat list" where
  "codes s = map of_char s"

definition strip :: "string \<Rightarrow> string" where
  "strip s = rev (dropWhile is_space (rev (dropWhile is_space s)))"

text \<open>\<open>pat in s\<close>: the pattern occurs as a contiguous run of \<open>s\<close>.\<close>

fun contains :: "'a list \<Rightarrow> 'a list \<Rightarrow> bool" where
  "contains pat [] = (pat = [])"
| "contains pat (c # cs) = (prefix pat (c # cs) \<or> contains pat cs)"

definition endswith :: "string \<Rightarrow> char \<Rightarrow> bool" where
  "endswith s c = (case rev s of [] \<Rightarrow> False | d # _ \<Rightarrow> d = c)"

section \<open>The three regular expressions of the SQL extraction\<close>

text \<open>
  \<open>split_first ci pat s\<close> cuts \<open>s\<close> at the leftmost occurrence of \<open>pat\<close>. When \<open>ci\<close> is
  set (\<open>re.IGNORECASE\<close>), the pattern is given in upper case and is compared with the
  upper-cased characters at the position. It returns the text before and after the
  occurrence.
\<close>

fun split_first :: "bool \<Rightarrow> string \<Rightarrow> string \<Rightarrow> (string \<times> string) option" where
  "split_first ci pat [] = (if pat = [] then Some ([], []) else None)"
| "split_first ci pat (c # cs) =
     (if prefix pat (if ci then casefold (take (length pat) (c # cs)) else c # cs)
      then Some ([], drop (length pat) (c # cs))
      else (case split_first ci pat cs of
              None \<Rightarrow> None
            | Some (before, after) \<Rightarrow> Some (c # before, after)))"

text \<open>
  \<open>re.search(open (.*?) \n```, text, re.DOTALL)\<close>, group 1. The search takes the leftmost
  opening fence and, the group being lazy, the first closing fence after it. When the
  leftmost opening has no closing fence behind it, no later opening has one either, so
  the search fails as a whole.
\<close>

definition closing_fence :: string where
  "closing_fence = [CHR 0x0A, CHR 0x60, CHR 0x60, CHR 0x60]"

definition search_fence :: "bool \<Rightarrow> string \<Rightarrow> string \<Rightarrow> string option" where
  "search_fence ci opening text =
     (case split_first ci opening text of
        None \<Rightarrow> None
      | Some (before, rest) \<Rightarrow>
          (case split_first False closing_fence rest of
             None \<Rightarrow> None
           | Some (body, after) \<Rightarrow> Some body))"

definition sql_fence :: string where
  "sql_fence = [CHR 0x60, CHR 0x60, CHR 0x60, CHR ''S'', CHR ''Q'', CHR ''L'', CHR 0x0A]"

definition code_fence :: string where
  "code_fence = [CHR 0x60, CHR 0x60, CHR 0x60, CHR 0x0A]"

definition search_sql_block :: "string \<Rightarrow> string option" where
  "search_sql_block text = search_fence True sql_fence text"

definition search_code_block :: "string \<Rightarrow> string option" where
  "search_code_block text = search_fence False code_fence text"

text \<open>
  \<open>re.search(r'(SELECT\s+.*?;)', text, re.DOTALL | re.IGNORECASE)\<close>, group 1: at the
  leftmost position where the word \<open>SELECT\<close> (in any case) is followed by a white-space
  character and a semicolon comes later, the text from the word to the first such
  semicolon. A white-space character is never a semicolon, so the first semicolon after
  the word is the one the lazy group stops at.
\<close>

definition select_here :: "string \<Rightarrow> string option" where
  "select_here s =
     (if casefold (take 6 s) = ''SELECT'' then
        (case drop 6 s of
           [] \<Rightarrow> None
         | w # r \<Rightarrow>
             (if is_space w \<and> CHR '';'' \<in> set r
              then Some (take 6 s @ w # takeWhile (\<lambda>c. c \<noteq> CHR '';'') r @ '';'')
              else None))
      else None)"

fun search_select :: "string \<Rightarrow> string option" where
  "search_select [] = None"
| "search_select (c # cs) =
     (case select_here (c # cs) of
        Some m \<Rightarrow> Some m
      | None \<Rightarrow> search_select cs)"

section \<open>SQL extraction\<close>

text \<open>
  The exceptions of the program. \<open>ServiceError\<close> stands for whatever an external service
  (a classifier, the language model, a database driver) raises, with its message;
  \<open>ProgrammingError\<close> is the database driver's exception for a statement it rejects.
\<close>

datatype py_exception =
    ValueError string
  | UnboundLocalError string
  | RuntimeError string
  | FileNotFoundError string
  | ProgrammingError string
  | ValidationError string
  | TypeError string
  | ServiceError string

text \<open>\<open>str(e)\<close>\<close>

fun str_exc :: "py_exception \<Rightarrow> string" where
  "str_exc (ValueError m) = m"
| "str_exc (UnboundLocalError m) = m"
| "str_exc (RuntimeError m) = m"
| "str_exc (FileNotFoundError m) = m"
| "str_exc (ProgrammingError m) = m"
| "str_exc (ValidationError m) = m"
| "str_exc (TypeError m) = m"
| "str_exc (ServiceError m) = m"

text \<open>\<open>extract_sql_from_markdown\<close> of \<open>workflow.py\<close> (analysis mode).\<close>

definition extract_sql_from_markdown :: "string \<Rightarrow> py_exception + string" where
  "extract_sql_from_markdown text =
     (case search_sql_block text of
        Some g \<Rightarrow> Inr (strip g)
      | None \<Rightarrow>
          (let code_match = search_code_block text in
           if code_match \<noteq> None \<and> contains (codes ''SELECT'') (upper (the code_match))
           then Inr (strip (the code_match))
           else
             (case search_select text of
                Some g \<Rightarrow> Inr (strip g)
              | None \<Rightarrow>
                  if contains (codes ''SELECT'') (upper text)
                     \<and> contains (codes ''FROM'') (upper text)
                  then (let cleaned = strip text in
                        Inr (if \<not> endswith cleaned (CHR '';'') then cleaned @ '';'' else cleaned))
                  else Inl (ValueError (''Could not extract SQL from response: ''
                                         @ take 200 text @ ''...'')))))"

text \<open>\<open>extract_sql_from_markdown\<close> of \<open>utils.py\<close>: the same steps, the message differs.\<close>

definition utils_extract_sql_from_markdown :: "string \<Rightarrow> py_exception + string" where
  "utils_extract_sql_from_markdown text =
     (case search_sql_block text of
        Some g \<Rightarrow> Inr (strip g)
      | None \<Rightarrow>
          (let code_match = search_code_block text;
               potential_sql = (case code_match of None \<Rightarrow> [] | Some g \<Rightarrow> strip g) in
           if code_match \<noteq> None \<and> contains (codes ''SELECT'') (upper potential_sql)
           then Inr potential_sql
           else
             (case search_select text of
                Some g \<Rightarrow> Inr (strip g)
              | None \<Rightarrow>
                  if contains (codes ''SELECT'') (upper text)
                     \<and> contains (codes ''FROM'') (upper text)
                  then (let cleaned = strip text in
                        Inr (if \<not> endswith cleaned (CHR '';'') then cleaned @ '';'' else cleaned))
                  else Inl (ValueError (''Could not extract SQL query from response: ''
                                         @ take 200 text @ ''...'')))))"

text \<open>
  The extraction at the end of \<open>generate_chart_sql\<close> of \<open>chart_agents.py\<close> (chart mode),
  applied to the text of the model's response.
\<close>

definition chart_extract_sql :: "string \<Rightarrow> py_exception + string" where
  "chart_extract_sql sql_text =
     (case search_sql_block sql_text of
        Some g \<Rightarrow> Inr (strip g)
      | None \<Rightarrow>
          (let code_match = search_code_block sql_text in
           if code_match \<noteq> None \<and> contains (codes ''SELECT'') (upper (the code_match))
           then Inr (strip (the code_match))
           else if contains (codes ''SELECT'') (upper sql_text)
           then Inr (strip sql_text)
           else Inl (ValueError (''Could not extract SQL from response: ''
                                  @ take 200 sql_text))))"

section \<open>The safety gate (\<open>guardrails_advanced.py\<close>)\<close>

text \<open>
  The two classifiers are external services: what each answers on a text is a parameter
  of the model. The moderation service flags the text (with the categories it names),
  does not flag it, or raises. The jailbreak model yields the two probabilities of its
  softmax (the jailbreak one first), or loading or running it raises. Probabilities are
  compared as real numbers, which is how floating-point numbers compare.
\<close>

datatype moderation_outcome = ModFlagged "string list" | ModClean | ModRaises string

datatype detector_outcome = DetProbs real real | DetRaises string

text \<open>The external calls a request makes, in the order it makes them.\<close>

datatype event =
    ModerationCall string
  | JailbreakCall string real
  | IntentCall string
  | TranslatorCall string
  | ChartTranslatorCall string
  | StoreCall string
  | InterpreterCall string
  | SpecifierCall string
  | McpCall string

text \<open>The dictionary \<open>JailbreakDetector.detect\<close> returns; an absent key is \<open>None\<close>.\<close>

record detection =
  is_jailbreak :: bool
  confidence :: real
  threshold :: "real option"
  safe_prob :: "real option"
  det_error :: "string option"

text \<open>
  The dictionary a single check returns. A key that is absent and a key bound to Python's
  \<open>None\<close> are both \<open>None\<close> here: the program reads these dictionaries with \<open>get\<close> only.
\<close>

record check_result =
  cr_blocked :: bool
  cr_reason :: "string option"
  cr_flagged_categories :: "string list option"
  cr_confidence :: "real option"
  cr_threshold :: "real option"
  cr_provider :: "string option"
  cr_error :: "string option"

definition empty_check :: check_result where
  "empty_check = \<lparr>cr_blocked = False, cr_reason = None, cr_flagged_categories = None,
     cr_confidence = None, cr_threshold = None, cr_provider = None, cr_error = None\<rparr>"

text \<open>The dictionary \<open>check_all\<close> returns.\<close>

record security_result =
  blocked :: bool
  reason :: "string option"
  checks :: "(string \<times> check_result) list"
  details :: "check_result option"
  safe_text :: "string option"

definition detect :: "(string \<Rightarrow> detector_outcome) \<Rightarrow> string \<Rightarrow> real \<Rightarrow> detection" where
  "detect model text th =
     (case model text of
        DetProbs jailbreak_prob safe \<Rightarrow>
          \<lparr>is_jailbreak = (jailbreak_prob > th), confidence = jailbreak_prob,
           threshold = Some th, safe_prob = Some safe, det_error = None\<rparr>
      | DetRaises e \<Rightarrow>
          \<lparr>is_jailbreak = False, confidence = 0,
           threshold = None, safe_prob = None, det_error = Some e\<rparr>)"

definition run_openai_moderation ::
  "(string \<Rightarrow> moderation_outcome) \<Rightarrow> string \<Rightarrow> check_result \<times> event list" where
  "run_openai_moderation service text =
     (case service text of
        ModFlagged flagged_cats \<Rightarrow>
          empty_check\<lparr>cr_blocked := True, cr_reason := Some ''harmful_content'',
            cr_flagged_categories := Some flagged_cats,
            cr_provider := Some ''OpenAI Moderation''\<rparr>
      | ModClean \<Rightarrow>
          empty_check\<lparr>cr_blocked := False, cr_reason := None,
            cr_provider := Some ''OpenAI Moderation''\<rparr>
      | ModRaises e \<Rightarrow>
          empty_check\<lparr>cr_blocked := False, cr_error := Some e\<rparr>,
      [ModerationCall text])"

text \<open>
  \<open>detect\<close> catches every exception itself, so the handler of
  \<open>run_jailbreak_detection\<close> has nothing to catch and is not a branch here.
\<close>

definition run_jailbreak_detection ::
  "(string \<Rightarrow> detector_outcome) \<Rightarrow> string \<Rightarrow> real \<Rightarrow> check_result \<times> event list" where
  "run_jailbreak_detection model text th =
     (let result = detect model text th in
      (if is_jailbreak result
       then empty_check\<lparr>cr_blocked := True, cr_reason := Some ''jailbreak_attempt'',
              cr_confidence := Some (confidence result), cr_threshold := threshold result,
              cr_provider := Some ''Jailbreak Sentinel v2''\<rparr>
       else empty_check\<lparr>cr_blocked := False, cr_reason := None,
              cr_confidence := Some (confidence result),
              cr_provider := Some ''Jailbreak Sentinel v2''\<rparr>,
       [JailbreakCall text th]))"

definition check_all ::
  "(string \<Rightarrow> moderation_outcome) \<Rightarrow> (string \<Rightarrow> detector_outcome) \<Rightarrow> string \<Rightarrow> real
     \<Rightarrow> security_result \<times> event list" where
  "check_all service model text jailbreak_threshold =
     (let (openai_result, ev1) = run_openai_moderation service text in
      if cr_blocked openai_result
      then (\<lparr>blocked = True, reason = Some ''harmful_content'',
             checks = [(''openai_moderation'', openai_result)],
             details = Some openai_result, safe_text = None\<rparr>, ev1)
      else
        (let (jailbreak_result, ev2) = run_jailbreak_detection model text jailbreak_threshold in
         if cr_blocked jailbreak_result
         then (\<lparr>blocked = True, reason = Some ''jailbreak_attempt'',
                checks = [(''openai_moderation'', openai_result),
                          (''jailbreak_detection'', jailbreak_result)],
                details = Some jailbreak_result, safe_text = None\<rparr>, ev1 @ ev2)
         else (\<lparr>blocked = False, reason = None,
                checks = [(''openai_moderation'', openai_result),
                          (''jailbreak_detection'', jailbreak_result)],
                details = None, safe_text = Some text\<rparr>, ev1 @ ev2)))"

section \<open>The query executors\<close>

text \<open>
  A result row is the dictionary from column names to values that the cursor returns,
  kept as an association list in the order of the columns.

  The database is an external service: a parameter of the model says, for each step of
  the driver's interface, whether it raises. Closing a cursor or a connection does not
  raise. What remains of the two handles when the executor returns or raises is part of
  its result.
\<close>

type_synonym row = "(string \<times> string) list"

record database =
  connect_error :: "py_exception option"
  cursor_error :: "py_exception option"
  execute_error :: "string \<Rightarrow> py_exception option"
  fetchall :: "string \<Rightarrow> py_exception + row list"

record handles =
  conn_open :: bool
  cursor_open :: bool

definition no_handles :: handles where
  "no_handles = \<lparr>conn_open = False, cursor_open = False\<rparr>"

definition unbound_cursor :: py_exception where
  "unbound_cursor = UnboundLocalError
     ''cannot access local variable 'cursor' where it is not associated with a value''"

text \<open>
  \<open>execute_snowflake_query\<close> of \<open>workflow.py\<close> and of \<open>workflow_chart.py\<close> (the two are
  the same text). The connection is opened before the \<open>try\<close>, the cursor inside it. When
  \<open>conn.cursor\<close> raises, the name \<open>cursor\<close> is unbound in the \<open>finally\<close> block:
  \<open>cursor.close()\<close> raises \<open>UnboundLocalError\<close>, which replaces the exception in flight,
  and \<open>conn.close()\<close> is not reached. The message of \<open>unbound_cursor\<close> is the one of
  Python 3.11 and later.
\<close>

definition execute_snowflake_query ::
  "database \<Rightarrow> string \<Rightarrow> (py_exception + row list) \<times> handles" where
  "execute_snowflake_query db sql =
     (case connect_error db of
        Some e \<Rightarrow> (Inl e, no_handles)
      | None \<Rightarrow>
          (case cursor_error db of
             Some e \<Rightarrow> (Inl unbound_cursor, \<lparr>conn_open = True, cursor_open = False\<rparr>)
           | None \<Rightarrow>
               (case execute_error db sql of
                  Some e \<Rightarrow> (Inl e, no_handles)
                | None \<Rightarrow>
                    (case fetchall db sql of
                       Inl e \<Rightarrow> (Inl e, no_handles)
                     | Inr results \<Rightarrow> (Inr results, no_handles)))))"



subsection \<open>The local store and its dialect rewriting\<close>

text \<open>
  \<open>str.replace(old, new)\<close> for a non-empty \<open>old\<close>: the occurrences are replaced from the
  left, without overlap. The counter is the number of characters of an occurrence still
  to skip.
\<close>

fun replace_from :: "nat \<Rightarrow> string \<Rightarrow> string \<Rightarrow> string \<Rightarrow> string" where
  "replace_from skip old new [] = []"
| "replace_from (Suc k) old new (c # cs) = replace_from k old new cs"
| "replace_from 0 old new (c # cs) =
     (if prefix old (c # cs) then new @ replace_from (length old - 1) old new cs
      else c # replace_from 0 old new cs)"

definition replace :: "string \<Rightarrow> string \<Rightarrow> string \<Rightarrow> string" where
  "replace old new s = replace_from 0 old new s"

definition is_digit :: "char \<Rightarrow> bool" where
  "is_digit c = (48 \<le> (of_char c :: nat) \<and> (of_char c :: nat) \<le> 57)"

definition interval_open :: string where
  "interval_open = ''CURRENT_DATE - INTERVAL '' @ [CHR 0x27]"

definition interval_close :: string where
  "interval_close = '' days'' @ [CHR 0x27]"

text \<open>
  A match of \<open>CURRENT_DATE - INTERVAL '(\d+) days'\<close> at the head of the text: the digits
  of the group and the length of the match.
\<close>

definition interval_here :: "string \<Rightarrow> (string \<times> nat) option" where
  "interval_here s =
     (if prefix interval_open s then
        (let after = drop (length interval_open) s;
             digits = takeWhile is_digit after in
         if digits \<noteq> [] \<and> prefix interval_close (drop (length digits) after)
         then Some (digits, length interval_open + length digits + length interval_close)
         else None)
      else None)"

fun sub_interval_from :: "nat \<Rightarrow> string \<Rightarrow> string" where
  "sub_interval_from skip [] = []"
| "sub_interval_from (Suc k) (c # cs) = sub_interval_from k cs"
| "sub_interval_from 0 (c # cs) =
     (case interval_here (c # cs) of
        Some (digits, n) \<Rightarrow>
          ''date('' @ [CHR 0x27] @ ''now'' @ [CHR 0x27] @ '', '' @ [CHR 0x27] @ ''-''
            @ digits @ '' days'' @ [CHR 0x27] @ '')'' @ sub_interval_from (n - 1) cs
      | None \<Rightarrow> c # sub_interval_from 0 cs)"

definition to_sqlite :: "string \<Rightarrow> string" where
  "to_sqlite sql_query =
     sub_interval_from 0
       (replace ''DATE(report_date)'' ''date(report_date)''
          (replace ''SWINE_ALERT'' ''swine_alert'' sql_query))"

text \<open>
  The local store: whether the database file exists, the steps of the driver, the column
  names of \<open>cursor.description\<close> (\<open>None\<close> when the statement returns no rows at all) and
  the tuples of \<open>cursor.fetchall\<close>.
\<close>

record sqlite_database =
  db_path :: string
  file_exists :: bool
  lite_connect_error :: "py_exception option"
  lite_cursor_error :: "py_exception option"
  lite_execute_error :: "string \<Rightarrow> py_exception option"
  description :: "string \<Rightarrow> string list option"
  lite_fetchall :: "string \<Rightarrow> py_exception + string list list"

text \<open>
  \<open>execute_sqlite_query\<close> of \<open>workflow_chart_local.py\<close>. Iterating over a
  \<open>cursor.description\<close> that is \<open>None\<close> raises \<open>TypeError\<close>.
\<close>

definition not_iterable :: py_exception where
  "not_iterable = TypeError ([CHR 0x27] @ ''NoneType'' @ [CHR 0x27] @ '' object is not iterable'')"

definition execute_sqlite_query ::
  "sqlite_database \<Rightarrow> string \<Rightarrow> (py_exception + row list) \<times> handles" where
  "execute_sqlite_query db sql_query =
     (if \<not> file_exists db
      then (Inl (FileNotFoundError
                   (''SQLite database not found at '' @ db_path db
                    @ ''. Please create it using database.py or use Snowflake connection.'')),
            no_handles)
      else
        (case lite_connect_error db of
           Some e \<Rightarrow> (Inl e, no_handles)
         | None \<Rightarrow>
             (case lite_cursor_error db of
                Some e \<Rightarrow> (Inl unbound_cursor, \<lparr>conn_open = True, cursor_open = False\<rparr>)
              | None \<Rightarrow>
                  (let sqlite_query = to_sqlite sql_query in
                   case lite_execute_error db sqlite_query of
                     Some e \<Rightarrow> (Inl e, no_handles)
                   | None \<Rightarrow>
                       (case description db sqlite_query of
                          None \<Rightarrow> (Inl not_iterable, no_handles)
                        | Some columns \<Rightarrow>
                            (case lite_fetchall db sqlite_query of
                               Inl e \<Rightarrow> (Inl e, no_handles)
                             | Inr rows \<Rightarrow>
                                 (Inr (map (\<lambda>row. zip columns row) rows), no_handles)))))))"

section \<open>Chart specifications (\<open>chart_agents.py\<close>)\<close>

datatype json =
    JNull
  | JBool bool
  | JInt int
  | JFloat real
  | JStr string
  | JList "json list"
  | JObj "(string \<times> json) list"

datatype chart_kind = Line | Bar | Scatter | MultiLine | GroupedBar | Pie | Heatmap

text \<open>The field \<open>y_axis: str | list[str]\<close>.\<close>

datatype y_axis_value = Column string | Columns "string list"

record ChartSpecification =
  chart_type :: chart_kind
  x_axis :: string
  y_axis :: y_axis_value
  title :: string
  x_label :: string
  y_label :: string
  color_by :: "string option"
  height :: int
  show_legend :: bool
  reasoning :: string

text \<open>\<open>Literal["line", "bar", "scatter", "multi_line", "grouped_bar", "pie", "heatmap"]\<close>\<close>

definition chart_kind_of :: "json \<Rightarrow> chart_kind option" where
  "chart_kind_of j =
     (case j of
        JStr s \<Rightarrow>
          (if s = ''line'' then Some Line
           else if s = ''bar'' then Some Bar
           else if s = ''scatter'' then Some Scatter
           else if s = ''multi_line'' then Some MultiLine
           else if s = ''grouped_bar'' then Some GroupedBar
           else if s = ''pie'' then Some Pie
           else if s = ''heatmap'' then Some Heatmap
           else None)
      | _ \<Rightarrow> None)"

definition str_of :: "json \<Rightarrow> string option" where
  "str_of j = (case j of JStr s \<Rightarrow> Some s | _ \<Rightarrow> None)"

fun str_list_of :: "json list \<Rightarrow> string list option" where
  "str_list_of [] = Some []"
| "str_list_of (j # js) =
     (case (str_of j, str_list_of js) of
        (Some s, Some ss) \<Rightarrow> Some (s # ss)
      | _ \<Rightarrow> None)"

definition y_axis_of :: "json \<Rightarrow> y_axis_value option" where
  "y_axis_of j =
     (case j of
        JStr s \<Rightarrow> Some (Column s)
      | JList js \<Rightarrow> map_option Columns (str_list_of js)
      | _ \<Rightarrow> None)"

text \<open>
  The constructor \<open>ChartSpecification(**result)\<close>: the validation that the class
  declaration asks of the validation library. A required field must be present with a
  value of its type, a field with a default may be absent, a key the class does not name
  is ignored, and the class declares no validator that relates two fields. Values of
  \<open>height\<close> and \<open>show_legend\<close> are taken when they are a JSON integer and a JSON boolean;
  the library's conversions from other kinds of value are left out.
\<close>

definition required :: "(string \<rightharpoonup> json) \<Rightarrow> string \<Rightarrow> (json \<Rightarrow> 'a option) \<Rightarrow> 'a option" where
  "required d k conv = (case d k of None \<Rightarrow> None | Some j \<Rightarrow> conv j)"

definition optional_str :: "(string \<rightharpoonup> json) \<Rightarrow> string \<Rightarrow> string option option" where
  "optional_str d k =
     (case d k of
        None \<Rightarrow> Some None
      | Some JNull \<Rightarrow> Some None
      | Some (JStr s) \<Rightarrow> Some (Some s)
      | _ \<Rightarrow> None)"

definition int_or :: "(string \<rightharpoonup> json) \<Rightarrow> string \<Rightarrow> int \<Rightarrow> int option" where
  "int_or d k dflt = (case d k of None \<Rightarrow> Some dflt | Some (JInt n) \<Rightarrow> Some n | _ \<Rightarrow> None)"

definition bool_or :: "(string \<rightharpoonup> json) \<Rightarrow> string \<Rightarrow> bool \<Rightarrow> bool option" where
  "bool_or d k dflt = (case d k of None \<Rightarrow> Some dflt | Some (JBool b) \<Rightarrow> Some b | _ \<Rightarrow> None)"

definition new_ChartSpecification :: "(string \<rightharpoonup> json) \<Rightarrow> py_exception + ChartSpecification" where
  "new_ChartSpecification d =
     (let ct = required d ''chart_type'' chart_kind_of;
          x = required d ''x_axis'' str_of;
          y = required d ''y_axis'' y_axis_of;
          t = required d ''title'' str_of;
          xl = required d ''x_label'' str_of;
          yl = required d ''y_label'' str_of;
          c = optional_str d ''color_by'';
          h = int_or d ''height'' 450;
          l = bool_or d ''show_legend'' True;
          r = required d ''reasoning'' str_of
      in if ct \<noteq> None \<and> x \<noteq> None \<and> y \<noteq> None \<and> t \<noteq> None \<and> xl \<noteq> None \<and> yl \<noteq> None
            \<and> c \<noteq> None \<and> h \<noteq> None \<and> l \<noteq> None \<and> r \<noteq> None
         then Inr \<lparr>chart_type = the ct, x_axis = the x, y_axis = the y, title = the t,
                   x_label = the xl, y_label = the yl, color_by = the c, height = the h,
                   show_legend = the l, reasoning = the r\<rparr>
         else Inl (ValidationError ''validation error for ChartSpecification''))"

section \<open>The language-model agents\<close>

datatype intent_kind = Chart | Text

record ChartIntent =
  intent :: intent_kind
  ci_confidence :: real
  ci_reasoning :: string

text \<open>What the caller of the chart specification service gets back.\<close>

datatype mcp_outcome = McpRaises string | McpResponse nat "py_exception + (string \<rightharpoonup> json)"

text \<open>
  The external services of a request. Each language-model entry is the model's answer to
  the prompt built from its arguments, or the exception the call raises. For
  \<open>detect_chart_intent\<close> the entry is the validated intent, for
  \<open>generate_chart_specification\<close> the JSON object found in the answer: the regular
  expression, \<open>json.loads\<close> and their failures are part of the entry.
\<close>

record services =
  moderation :: "string \<Rightarrow> moderation_outcome"
  detector :: "string \<Rightarrow> detector_outcome"
  intent_model :: "string \<Rightarrow> py_exception + ChartIntent"
  sql_model :: "string \<Rightarrow> py_exception + string"
  chart_sql_model :: "string \<Rightarrow> py_exception + string"
  snowflake :: database
  sqlite :: sqlite_database
  interpreter :: "string \<Rightarrow> string \<Rightarrow> row list \<Rightarrow> py_exception + string"
  spec_model :: "string \<Rightarrow> string \<Rightarrow> row list \<Rightarrow> py_exception + (string \<rightharpoonup> json)"
  mcp_server :: "string \<Rightarrow> string \<Rightarrow> string \<Rightarrow> row list \<Rightarrow> mcp_outcome"

definition run_security_checks :: "services \<Rightarrow> string \<Rightarrow> real \<Rightarrow> security_result \<times> event list" where
  "run_security_checks sv text jailbreak_threshold =
     check_all (moderation sv) (detector sv) text jailbreak_threshold"

definition detect_chart_intent :: "services \<Rightarrow> string \<Rightarrow> (py_exception + ChartIntent) \<times> event list" where
  "detect_chart_intent sv user_query = (intent_model sv user_query, [IntentCall user_query])"

definition generate_chart_sql :: "services \<Rightarrow> string \<Rightarrow> (py_exception + string) \<times> event list" where
  "generate_chart_sql sv user_query =
     (case chart_sql_model sv user_query of
        Inl e \<Rightarrow> Inl e
      | Inr sql_text \<Rightarrow> chart_extract_sql sql_text,
      [ChartTranslatorCall user_query])"

definition generate_chart_specification ::
  "services \<Rightarrow> string \<Rightarrow> string \<Rightarrow> row list
     \<Rightarrow> (py_exception + ChartSpecification) \<times> event list" where
  "generate_chart_specification sv user_query sql_query query_results =
     (if query_results = []
      then (Inl (ValueError ''No query results to visualize''), [])
      else
        (case spec_model sv user_query sql_query query_results of
           Inl e \<Rightarrow> Inl e
         | Inr result \<Rightarrow> new_ChartSpecification result,
         [SpecifierCall user_query]))"

text \<open>
  \<open>generate_chart_specification_mcp\<close>: without an address (\<open>None\<close> or the empty string) the
  language model is asked directly; with one, the service is asked first, and on any
  exception, on a status other than 200 and on a document that does not validate, the
  language model is asked after all. On a status other than 200 that call is made inside
  the \<open>try\<close>: when it raises, the handler makes it a second time.
\<close>

definition generate_chart_specification_mcp ::
  "services \<Rightarrow> string \<Rightarrow> string \<Rightarrow> row list \<Rightarrow> string option
     \<Rightarrow> (py_exception + ChartSpecification) \<times> event list" where
  "generate_chart_specification_mcp sv user_query sql_query query_results mcp_server_url =
     (if mcp_server_url = None \<or> mcp_server_url = Some []
      then generate_chart_specification sv user_query sql_query query_results
      else
        (let url = the mcp_server_url;
             (fallback, ev) = generate_chart_specification sv user_query sql_query query_results in
         case mcp_server sv url user_query sql_query (take 10 query_results) of
           McpRaises e \<Rightarrow> (fallback, McpCall url # ev)
         | McpResponse status body \<Rightarrow>
             (if status = 200 then
                (case body of
                   Inl e \<Rightarrow> (fallback, McpCall url # ev)
                 | Inr spec_data \<Rightarrow>
                     (case new_ChartSpecification spec_data of
                        Inl e \<Rightarrow> (fallback, McpCall url # ev)
                      | Inr spec \<Rightarrow> (Inr spec, [McpCall url])))
              else
                (case fallback of
                   Inl e \<Rightarrow> (fallback, McpCall url # ev @ ev)
                 | Inr spec \<Rightarrow> (fallback, McpCall url # ev)))))"

section \<open>The workflows\<close>

text \<open>
  The dictionary a workflow returns. An absent key is \<open>None\<close>; the keys \<open>details\<close> and
  \<open>database\<close> are the fields \<open>security_details\<close> and \<open>database_name\<close>.
\<close>

record envelope =
  success :: bool
  error :: "string option"
  security_details :: "security_result option"
  sql_query :: "string option"
  raw_results :: "row list option"
  analysis :: "string option"
  moderation_provider :: "string option"
  workflow_type :: "string option"
  chart_spec :: "ChartSpecification option"
  security_checks :: "security_result option"
  row_count :: "nat option"
  database_name :: "string option"
  suggestion :: "string option"
  intent_confidence :: "real option"

definition failure :: "string \<Rightarrow> envelope" where
  "failure msg = \<lparr>success = False, error = Some msg, security_details = None,
     sql_query = None, raw_results = None, analysis = None, moderation_provider = None,
     workflow_type = None, chart_spec = None, security_checks = None, row_count = None,
     database_name = None, suggestion = None, intent_confidence = None\<rparr>"

text \<open>\<open>f"{security_result['reason']}"\<close>\<close>

definition reason_text :: "security_result \<Rightarrow> string" where
  "reason_text r = (case reason r of None \<Rightarrow> ''None'' | Some s \<Rightarrow> s)"

record WorkflowInput =
  input_as_text :: string

record ChartWorkflowInput = WorkflowInput +
  use_mcp_server :: bool
  mcp_server_url :: "string option"

record LocalChartWorkflowInput = ChartWorkflowInput +
  use_local_db :: bool

record UnifiedWorkflowInput = LocalChartWorkflowInput +
  force_chart :: bool
  force_text :: bool

text \<open>
  \<open>run_workflow\<close> of \<open>workflow.py\<close>, the text workflow. It has no \<open>try\<close>: an exception of
  the language model, of the extraction or of the executor leaves the function, which is
  the left summand of the result.
\<close>

definition run_workflow :: "services \<Rightarrow> 'a WorkflowInput_scheme \<Rightarrow> (py_exception + envelope) \<times> event list" where
  "run_workflow sv workflow_input =
     (let user_input = input_as_text workflow_input;
          (security_result, ev1) = run_security_checks sv user_input (1 / 2) in
      if blocked security_result
      then (Inr (failure (''Security check failed: '' @ reason_text security_result)), ev1)
      else
        (let ev2 = ev1 @ [TranslatorCall user_input] in
         case sql_model sv user_input of
           Inl e \<Rightarrow> (Inl e, ev2)
         | Inr sql_text \<Rightarrow>
             (case extract_sql_from_markdown sql_text of
                Inl e \<Rightarrow> (Inl e, ev2)
              | Inr sql \<Rightarrow>
                  (let ev3 = ev2 @ [StoreCall sql] in
                   case fst (execute_snowflake_query (snowflake sv) sql) of
                     Inl e \<Rightarrow> (Inl e, ev3)
                   | Inr results \<Rightarrow>
                       (let ev4 = ev3 @ [InterpreterCall user_input] in
                        case interpreter sv user_input sql results of
                          Inl e \<Rightarrow> (Inl e, ev4)
                        | Inr text \<Rightarrow>
                            (Inr \<lparr>success = True, error = None, security_details = None,
                                  sql_query = Some sql, raw_results = Some results,
                                  analysis = Some text,
                                  moderation_provider = Some ''OpenAI Moderation'',
                                  workflow_type = None, chart_spec = None,
                                  security_checks = None, row_count = None,
                                  database_name = None, suggestion = None,
                                  intent_confidence = None\<rparr>, ev4))))))"

text \<open>
  Step 4 of both chart workflows: the specification, from the service or from the
  language model.
\<close>

definition specify ::
  "services \<Rightarrow> 'a ChartWorkflowInput_scheme \<Rightarrow> string \<Rightarrow> row list
     \<Rightarrow> (py_exception + ChartSpecification) \<times> event list" where
  "specify sv workflow_input sql results =
     (if use_mcp_server workflow_input
      then generate_chart_specification_mcp sv (input_as_text workflow_input) sql results
             (mcp_server_url workflow_input)
      else generate_chart_specification sv (input_as_text workflow_input) sql results)"

text \<open>
  \<open>run_chart_workflow\<close> of \<open>workflow_chart.py\<close>. Each of the steps 2 to 4 is inside a
  \<open>try\<close> whose handler returns a failure dictionary.
\<close>

definition run_chart_workflow :: "services \<Rightarrow> 'a ChartWorkflowInput_scheme \<Rightarrow> envelope \<times> event list" where
  "run_chart_workflow sv workflow_input =
     (let user_input = input_as_text workflow_input;
          (security_result, ev1) = run_security_checks sv user_input (1 / 2) in
      if blocked security_result
      then ((failure (''Security check failed: '' @ reason_text security_result))
              \<lparr>security_details := Some security_result\<rparr>, ev1)
      else
        (let (generated, evg) = generate_chart_sql sv user_input; ev2 = ev1 @ evg in
         case generated of
           Inl e \<Rightarrow> (failure (''SQL generation failed: '' @ str_exc e), ev2)
         | Inr sql \<Rightarrow>
             (let ev3 = ev2 @ [StoreCall sql] in
              case fst (execute_snowflake_query (snowflake sv) sql) of
                Inl e \<Rightarrow>
                  ((failure (''Query execution failed: '' @ str_exc e))
                     \<lparr>sql_query := Some sql\<rparr>, ev3)
              | Inr results \<Rightarrow>
                  (if results = []
                   then ((failure ''Query returned no results'')\<lparr>sql_query := Some sql\<rparr>, ev3)
                   else
                     (let (specified, evs) = specify sv workflow_input sql results;
                          ev4 = ev3 @ evs in
                      case specified of
                        Inl e \<Rightarrow>
                          ((failure (''Chart specification failed: '' @ str_exc e))
                             \<lparr>sql_query := Some sql, raw_results := Some results\<rparr>, ev4)
                      | Inr spec \<Rightarrow>
                          (\<lparr>success = True, error = None, security_details = None,
                            sql_query = Some sql, raw_results = Some results,
                            analysis = None, moderation_provider = None,
                            workflow_type = Some ''chart'', chart_spec = Some spec,
                            security_checks = Some security_result,
                            row_count = Some (length results),
                            database_name = None, suggestion = None,
                            intent_confidence = None\<rparr>, ev4))))))"

text \<open>
  \<open>run_chart_workflow\<close> of \<open>workflow_chart_local.py\<close>: the same steps, with the store
  chosen by \<open>use_local_db\<close> and a remediation suggestion on a connectivity error.
\<close>

definition run_chart_workflow_local ::
  "services \<Rightarrow> 'a LocalChartWorkflowInput_scheme \<Rightarrow> envelope \<times> event list" where
  "run_chart_workflow_local sv workflow_input =
     (let user_input = input_as_text workflow_input;
          (security_result, ev1) = run_security_checks sv user_input (1 / 2) in
      if blocked security_result
      then ((failure (''Security check failed: '' @ reason_text security_result))
              \<lparr>security_details := Some security_result\<rparr>, ev1)
      else
        (let (generated, evg) = generate_chart_sql sv user_input; ev2 = ev1 @ evg in
         case generated of
           Inl e \<Rightarrow> (failure (''SQL generation failed: '' @ str_exc e), ev2)
         | Inr sql \<Rightarrow>
             (let ev3 = ev2 @ [StoreCall sql] in
              case (if use_local_db workflow_input
                    then fst (execute_sqlite_query (sqlite sv) sql)
                    else fst (execute_snowflake_query (snowflake sv) sql)) of
                Inl e \<Rightarrow>
                  (let error_msg = str_exc e in
                   if contains ''Network policy is required'' error_msg
                      \<or> contains ''Failed to connect'' error_msg
                   then ((failure
                            ''Snowflake network policy error: Your IP address is not whitelisted'')
                           \<lparr>sql_query := Some sql,
                            suggestion := Some ''Contact your Snowflake admin to whitelist your IP, use VPN, or enable local SQLite mode in the sidebar''\<rparr>,
                         ev3)
                   else ((failure (''Query execution failed: '' @ error_msg))
                           \<lparr>sql_query := Some sql\<rparr>, ev3))
              | Inr results \<Rightarrow>
                  (if results = []
                   then ((failure ''Query returned no results'')\<lparr>sql_query := Some sql\<rparr>, ev3)
                   else
                     (let (specified, evs) = specify sv workflow_input sql results;
                          ev4 = ev3 @ evs in
                      case specified of
                        Inl e \<Rightarrow>
                          ((failure (''Chart specification failed: '' @ str_exc e))
                             \<lparr>sql_query := Some sql, raw_results := Some results\<rparr>, ev4)
                      | Inr spec \<Rightarrow>
                          (\<lparr>success = True, error = None, security_details = None,
                            sql_query = Some sql, raw_results = Some results,
                            analysis = None, moderation_provider = None,
                            workflow_type = Some ''chart'', chart_spec = Some spec,
                            security_checks = Some security_result,
                            row_count = Some (length results),
                            database_name =
                              Some (if use_local_db workflow_input then ''SQLite (Local)''
                                    else ''Snowflake (Production)''),
                            suggestion = None, intent_confidence = None\<rparr>, ev4))))))"

text \<open>
  \<open>run_unified_workflow\<close> of \<open>workflow_unified.py\<close>. The first step fixes the intent and
  its confidence; only its last branch calls the intent classifier, whose exception
  gives the text intent at confidence 0.5. The local chart workflow returns a dictionary
  on every path, so the handler around it, which would run the other chart workflow, has
  nothing to catch.
\<close>

definition route ::
  "services \<Rightarrow> 'a UnifiedWorkflowInput_scheme \<Rightarrow> (intent_kind \<times> real) \<times> event list" where
  "route sv workflow_input =
     (if force_chart workflow_input then ((Chart, 1), [])
      else if force_text workflow_input then ((Text, 1), [])
      else
        (case detect_chart_intent sv (input_as_text workflow_input) of
           (Inr chart_intent, ev) \<Rightarrow> ((intent chart_intent, ci_confidence chart_intent), ev)
         | (Inl e, ev) \<Rightarrow> ((Text, 1 / 2), ev)))"

definition run_unified_workflow ::
  "services \<Rightarrow> 'a UnifiedWorkflowInput_scheme \<Rightarrow> (py_exception + envelope) \<times> event list" where
  "run_unified_workflow sv workflow_input =
     (let user_input = input_as_text workflow_input;
          ((intent, confidence), ev0) = route sv workflow_input in
      if intent = Chart then
        (let (result, ev) =
               (if use_local_db workflow_input
                then run_chart_workflow_local sv
                       \<lparr>input_as_text = user_input,
                        use_mcp_server = use_mcp_server workflow_input,
                        mcp_server_url = mcp_server_url workflow_input,
                        use_local_db = True\<rparr>
                else run_chart_workflow sv
                       \<lparr>input_as_text = user_input,
                        use_mcp_server = use_mcp_server workflow_input,
                        mcp_server_url = mcp_server_url workflow_input\<rparr>) in
         (Inr (result\<lparr>intent_confidence := Some confidence\<rparr>), ev0 @ ev))
      else
        (case run_workflow sv \<lparr>input_as_text = user_input\<rparr> of
           (Inl e, ev) \<Rightarrow> (Inl e, ev0 @ ev)
         | (Inr result, ev) \<Rightarrow>
             (Inr (result\<lparr>workflow_type := Some ''text'',
                          intent_confidence := Some confidence\<rparr>), ev0 @ ev)))"

section \<open>The invariants as the specification words them\<close>

text \<open>
  The invariant of a SqlStatement, following the specification's words and not the
  program: the statement matches \<open>/^SELECT\b.*LIMIT\s+\d+/is\<close> and contains none of the
  keywords \<open>INSERT\<close>, \<open>UPDATE\<close>, \<open>DELETE\<close>, \<open>DROP\<close> (in any case).
\<close>

definition is_word_char :: "char \<Rightarrow> bool" where
  "is_word_char c =
     (let n = (of_char c :: nat) in
      (48 \<le> n \<and> n \<le> 57) \<or> (65 \<le> n \<and> n \<le> 90) \<or> n = 95 \<or> (97 \<le> n \<and> n \<le> 122))"

definition limit_here :: "string \<Rightarrow> bool" where
  "limit_here s =
     (casefold (take 5 s) = ''LIMIT'' \<and>
      (case drop 5 s of
         [] \<Rightarrow> False
       | w # r \<Rightarrow>
           is_space w \<and> (case dropWhile is_space r of [] \<Rightarrow> False | d # _ \<Rightarrow> is_digit d)))"

fun has_limit :: "string \<Rightarrow> bool" where
  "has_limit [] = False"
| "has_limit (c # cs) = (limit_here (c # cs) \<or> has_limit cs)"

definition spec_SqlStatement_invariant :: "string \<Rightarrow> bool" where
  "spec_SqlStatement_invariant s =
     (casefold (take 6 s) = ''SELECT''
      \<and> (case drop 6 s of [] \<Rightarrow> True | c # _ \<Rightarrow> \<not> is_word_char c)
      \<and> has_limit (drop 6 s)
      \<and> \<not> contains ''INSERT'' (casefold s) \<and> \<not> contains ''UPDATE'' (casefold s)
      \<and> \<not> contains ''DELETE'' (casefold s) \<and> \<not> contains ''DROP'' (casefold s))"

text \<open>
  The invariant of a ChartSpec, following the specification's words: \<open>y_axis\<close> is a list
  exactly when the chart type is \<open>multi_line\<close> or \<open>grouped_bar\<close>.
\<close>

definition is_list :: "y_axis_value \<Rightarrow> bool" where
  "is_list y = (case y of Column c \<Rightarrow> False | Columns cs \<Rightarrow> True)"

definition spec_ChartSpec_invariant :: "ChartSpecification \<Rightarrow> bool" where
  "spec_ChartSpec_invariant spec =
     (is_list (y_axis spec) = (chart_type spec = MultiLine \<or> chart_type spec = GroupedBar))"

section \<open>Auxiliary notions of the proofs\<close>

text \<open>
  The shape of a match of \<open>SELECT\s+.*?;\<close>: the word in some case, a white-space
  character, and a text that ends at its only semicolon.
\<close>

definition select_shaped :: "string \<Rightarrow> bool" where
  "select_shaped m =
     (\<exists>p w r. length p = 6 \<and> casefold p = ''SELECT'' \<and> is_space w
        \<and> m = p @ w # takeWhile (\<lambda>c. c \<noteq> CHR '';'') r @ '';'')"

text \<open>A document with the required fields of a chart specification.\<close>

definition spec_document :: "string \<Rightarrow> json \<Rightarrow> (string \<rightharpoonup> json)" where
  "spec_document kind y =
     [''chart_type'' \<mapsto> JStr kind, ''x_axis'' \<mapsto> JStr ''REPORT_DATE'', ''y_axis'' \<mapsto> y,
      ''title'' \<mapsto> JStr ''Disease incidence'', ''x_label'' \<mapsto> JStr ''Date'',
      ''y_label'' \<mapsto> JStr ''Percent'', ''reasoning'' \<mapsto> JStr ''Time series'']"

definition spec_of_document :: "chart_kind \<Rightarrow> y_axis_value \<Rightarrow> ChartSpecification" where
  "spec_of_document kind y =
     \<lparr>chart_type = kind, x_axis = ''REPORT_DATE'', y_axis = y, title = ''Disease incidence'',
      x_label = ''Date'', y_label = ''Percent'', color_by = None, height = 450,
      show_legend = True, reasoning = ''Time series''\<rparr>"

section \<open>Sample services and requests\<close>

definition flagging :: "string \<Rightarrow> moderation_outcome" where
  "flagging text = ModFlagged [''violence'']"

definition passing :: "string \<Rightarrow> moderation_outcome" where
  "passing text = ModClean"

definition unreachable_moderation :: "string \<Rightarrow> moderation_outcome" where
  "unreachable_moderation text = ModRaises ''Connection error.''"

definition harmless :: "string \<Rightarrow> detector_outcome" where
  "harmless text = DetProbs (1 / 10) (9 / 10)"

definition at_threshold :: "string \<Rightarrow> detector_outcome" where
  "at_threshold text = DetProbs (1 / 2) (1 / 2)"

definition hostile :: "string \<Rightarrow> detector_outcome" where
  "hostile text = DetProbs (9 / 10) (1 / 10)"

definition unloaded :: "string \<Rightarrow> detector_outcome" where
  "unloaded text = DetRaises ''HF_TOKEN not found in environment''"

definition no_intent :: "string \<Rightarrow> py_exception + ChartIntent" where
  "no_intent q = Inl (ServiceError ''Request timed out.'')"

definition refusing :: "string \<Rightarrow> py_exception + string" where
  "refusing q = Inr ''I can only answer questions about the farm data.''"

definition fenced_answer :: string where
  "fenced_answer = ''```sql\<newline>SELECT FARM_NAME, DC_PERCENT FROM SWINE_ALERT LIMIT 10;\<newline>```''"

definition answer_sql :: string where
  "answer_sql = ''SELECT FARM_NAME, DC_PERCENT FROM SWINE_ALERT LIMIT 10;''"

definition answering :: "string \<Rightarrow> py_exception + string" where
  "answering q = Inr fenced_answer"

definition no_error :: "string \<Rightarrow> py_exception option" where
  "no_error sql = None"

definition no_rows :: "string \<Rightarrow> py_exception + row list" where
  "no_rows sql = Inr []"

definition one_row :: "string \<Rightarrow> py_exception + row list" where
  "one_row sql = Inr [[(''REPORT_DATE'', ''2025-10-28''), (''PNEUMONIA'', ''15''), (''FEVER'', ''6'')]]"

definition empty_store :: database where
  "empty_store = \<lparr>connect_error = None, cursor_error = None,
     execute_error = no_error, fetchall = no_rows\<rparr>"

definition filled_store :: database where
  "filled_store = empty_store\<lparr>fetchall := one_row\<rparr>"


definition no_columns :: "string \<Rightarrow> string list option" where
  "no_columns sql = None"

definition no_tuples :: "string \<Rightarrow> py_exception + string list list" where
  "no_tuples sql = Inr []"

definition absent_file :: sqlite_database where
  "absent_file = \<lparr>db_path = ''data/swine_data.db'', file_exists = False,
     lite_connect_error = None, lite_cursor_error = None, lite_execute_error = no_error,
     description = no_columns, lite_fetchall = no_tuples\<rparr>"

definition narrator :: "string \<Rightarrow> string \<Rightarrow> row list \<Rightarrow> py_exception + string" where
  "narrator q sql rows = Inr ''No barns match the question.''"

definition line_of_columns :: "string \<Rightarrow> string \<Rightarrow> row list \<Rightarrow> py_exception + (string \<rightharpoonup> json)" where
  "line_of_columns q sql rows =
     Inr (spec_document ''line'' (JList [JStr ''PNEUMONIA'', JStr ''FEVER'']))"

definition no_mcp :: "string \<Rightarrow> string \<Rightarrow> string \<Rightarrow> row list \<Rightarrow> mcp_outcome" where
  "no_mcp url q sql rows = McpRaises ''Connection refused''"

definition sample_services :: services where
  "sample_services = \<lparr>moderation = passing, detector = harmless, intent_model = no_intent,
     sql_model = answering, chart_sql_model = answering, snowflake = empty_store,
     sqlite = absent_file, interpreter = narrator, spec_model = line_of_columns,
     mcp_server = no_mcp\<rparr>"

definition question :: string where
  "question = ''Show me mortality trends over the last month''"

text \<open>The external calls that a chart workflow can make.\<close>

fun chart_event :: "event \<Rightarrow> bool" where
  "chart_event (IntentCall q) = False"
| "chart_event (TranslatorCall q) = False"
| "chart_event (InterpreterCall q) = False"
| "chart_event e = True"

section \<open>Facts about strings\<close>

lemma char_of_is: "(char_of (n::nat) = c) = (n mod 256 = of_char c)"
  by (metis char_of_char of_char_of)

lemma space_casefold [simp]: "is_space (casefold_char c) = is_space c"
  by (auto simp: casefold_char_def is_space_def Let_def split: if_splits)

lemma contains_sublist: "contains p s = sublist p s"
  by (induction s) (auto simp: sublist_Cons_right)

lemma casefold_append [simp]: "casefold (a @ b) = casefold a @ casefold b"
  by (simp add: casefold_def)

lemma upper_append [simp]: "upper (a @ b) = upper a @ upper b"
  by (simp add: upper_def)

text \<open>Upper-casing keeps a white-space character, and so the code points of a run of them.\<close>

lemma upper_codes_space: "is_space c \<Longrightarrow> upper_codes c = [of_char c]"
  by (auto simp: upper_codes_def is_space_def)

lemma upper_spaces:
  "\<forall>c\<in>set a. is_space c \<Longrightarrow>
     set (upper a) \<subseteq> {9, 10, 11, 12, 13, 28, 29, 30, 31, 32, 133, 160}"
proof (induction a)
  case Nil
  then show ?case by (simp add: upper_def)
next
  case (Cons c a)
  then have "is_space c" and "set (upper a) \<subseteq> {9, 10, 11, 12, 13, 28, 29, 30, 31, 32, 133, 160}"
    by simp_all
  moreover have "upper (c # a) = upper_codes c @ upper a" by (simp add: upper_def)
  ultimately show ?case by (simp add: upper_codes_space is_space_def)
qed

text \<open>
  A pattern of upper-case ASCII letters that matches a text without regard to case is
  the upper-casing of that text.
\<close>

lemma casefold_letter:
  assumes "65 \<le> (of_char (casefold_char c) :: nat)" "(of_char (casefold_char c) :: nat) \<le> 90"
  shows "upper_codes c = [of_char (casefold_char c)]"
  using assms by (auto simp: casefold_char_def upper_codes_def Let_def split: if_splits)

lemma casefold_letters_upper:
  "\<forall>d\<in>set (casefold p). 65 \<le> (of_char d :: nat) \<and> (of_char d :: nat) \<le> 90 \<Longrightarrow>
     upper p = codes (casefold p)"
  by (induction p) (simp_all add: upper_def codes_def casefold_def casefold_letter)

lemma sublist_drop_left:
  assumes "sublist p (a @ r)" "p \<noteq> []" "set p \<inter> set a = {}"
  shows "sublist p r"
  using assms
proof (induction a)
  case Nil
  then show ?case by simp
next
  case (Cons x a)
  from Cons.prems(1) have "prefix p (x # a @ r) \<or> sublist p (a @ r)"
    by (simp add: sublist_Cons_right)
  moreover have "\<not> prefix p (x # a @ r)"
    using Cons.prems(2,3) by (cases p) auto
  ultimately have "sublist p (a @ r)" by blast
  with Cons show ?case by auto
qed

lemma sublist_drop_both:
  assumes "sublist p (a @ m @ b)" "p \<noteq> []" "set p \<inter> set a = {}" "set p \<inter> set b = {}"
  shows "sublist p m"
proof -
  have 1: "sublist p (m @ b)" by (rule sublist_drop_left [OF assms(1,2,3)])
  have "sublist (rev p) (rev (m @ b))" using 1 by (simp only: sublist_rev)
  then have 2: "sublist (rev p) (rev b @ rev m)" by (simp only: rev_append)
  have 3: "rev p \<noteq> []" using assms(2) by simp
  have 4: "set (rev p) \<inter> set (rev b) = {}" using assms(4) by simp
  have "sublist (rev p) (rev m)" by (rule sublist_drop_left [OF 2 3 4])
  then show ?thesis by (simp only: sublist_rev)
qed

lemma strip_decomposition:
  "\<exists>a b. s = a @ strip s @ b \<and> (\<forall>c\<in>set a. is_space c) \<and> (\<forall>c\<in>set b. is_space c)"
proof -
  let ?d = "dropWhile is_space s"
  let ?b = "rev (takeWhile is_space (rev ?d))"
  have d: "?d = strip s @ ?b"
    unfolding strip_def by (metis rev_append rev_rev_ident takeWhile_dropWhile_id)
  have "s = takeWhile is_space s @ ?d" by simp
  with d have "s = takeWhile is_space s @ strip s @ ?b" by metis
  moreover have "\<forall>c\<in>set (takeWhile is_space s). is_space c" by (auto dest: set_takeWhileD)
  moreover have "\<forall>c\<in>set ?b. is_space c" by (auto dest: set_takeWhileD)
  ultimately show ?thesis by blast
qed

lemma strip_keeps_SELECT:
  assumes "contains (codes ''SELECT'') (upper s)"
  shows "contains (codes ''SELECT'') (upper (strip s))"
proof -
  obtain a b where s: "s = a @ strip s @ b"
    and a: "\<forall>c\<in>set a. is_space c" and b: "\<forall>c\<in>set b. is_space c"
    using strip_decomposition by blast
  have "upper s = upper (a @ strip s @ b)" using s by (rule arg_cong)
  then have "upper s = upper a @ upper (strip s) @ upper b" by simp
  with assms have 1: "sublist (codes ''SELECT'') (upper a @ upper (strip s) @ upper b)"
    by (simp add: contains_sublist)
  have 2: "set (codes ''SELECT'') \<inter> set (upper a) = {}"
    using upper_spaces [OF a] by (auto simp: codes_def)
  have 3: "set (codes ''SELECT'') \<inter> set (upper b) = {}"
    using upper_spaces [OF b] by (auto simp: codes_def)
  have "codes ''SELECT'' \<noteq> []" by (simp add: codes_def)
  with 1 have "sublist (codes ''SELECT'') (upper (strip s))"
    using 2 3 by (rule sublist_drop_both)
  then show ?thesis by (simp add: contains_sublist)
qed

lemma contains_append_right: "contains p s \<Longrightarrow> contains p (s @ t)"
  unfolding contains_sublist by (metis sublist_append)

lemma contains_prefix: "prefix p s \<Longrightarrow> p \<noteq> [] \<Longrightarrow> contains p s"
  by (cases s) auto

lemma strip_id:
  assumes "s \<noteq> []" "\<not> is_space (hd s)" "\<not> is_space (last s)"
  shows "strip s = s"
proof -
  have 1: "dropWhile is_space s = s" using assms by (cases s) auto
  have "rev s \<noteq> []" "\<not> is_space (hd (rev s))" using assms by (auto simp: hd_rev)
  then have 2: "dropWhile is_space (rev s) = rev s" by (cases "rev s") auto
  show ?thesis by (simp add: strip_def 1 2)
qed

subsection \<open>The match of \<open>SELECT\s+.*?;\<close>\<close>

lemma select_here_shaped:
  assumes a: "select_here u = Some m"
  shows "select_shaped m"
proof -
  from a have up: "casefold (take 6 u) = ''SELECT''"
    by (auto simp: select_here_def split: if_splits)
  then have "length (casefold (take 6 u)) = 6" by simp
  then have len: "6 \<le> length u" by (simp add: casefold_def)
  from a up obtain w r where "drop 6 u = w # r" and w: "is_space w"
    and m: "m = take 6 u @ w # takeWhile (\<lambda>c. c \<noteq> CHR '';'') r @ '';''"
    by (auto simp: select_here_def split: list.splits if_splits)
  show ?thesis unfolding select_shaped_def
    using len up w m by (intro exI[of _ "take 6 u"] exI[of _ w] exI[of _ r]) simp
qed

lemma search_select_shaped: "search_select t = Some m \<Longrightarrow> select_shaped m"
  by (induction t) (auto split: option.splits dest: select_here_shaped)

lemma takeWhile_semicolon_again:
  "takeWhile (\<lambda>c. c \<noteq> CHR '';'') (takeWhile (\<lambda>c. c \<noteq> CHR '';'') r @ '';'')
     = takeWhile (\<lambda>c. c \<noteq> CHR '';'') r"
  by (induction r) auto

lemma shaped_select_here: "select_shaped m \<Longrightarrow> select_here m = Some m"
  by (auto simp: select_shaped_def select_here_def takeWhile_semicolon_again)

lemma shaped_search_select:
  assumes a: "select_shaped m"
  shows "search_select m = Some m"
proof -
  from a have "m \<noteq> []" by (auto simp: select_shaped_def)
  then obtain c cs where "m = c # cs" by (cases m) auto
  with shaped_select_here[OF a] show ?thesis by simp
qed

lemma upper_S_not_space: "casefold_char c = CHR ''S'' \<Longrightarrow> \<not> is_space c"
  by (auto simp: casefold_char_def is_space_def Let_def split: if_splits)

lemma shaped_strip:
  assumes "select_shaped m"
  shows "strip m = m"
proof -
  from assms obtain p w r where p: "length p = 6" "casefold p = ''SELECT''"
    and m: "m = p @ w # takeWhile (\<lambda>c. c \<noteq> CHR '';'') r @ '';''"
    by (auto simp: select_shaped_def)
  from p obtain c cs where pc: "p = c # cs" by (cases p) auto
  with p have "casefold_char c = CHR ''S''" by (simp add: casefold_def)
  then have "\<not> is_space (hd m)" using m pc by (simp add: upper_S_not_space)
  moreover have "\<not> is_space (last m)" using m by (simp add: is_space_def)
  moreover have "m \<noteq> []" using m by simp
  ultimately show ?thesis by (simp add: strip_id)
qed

lemma shaped_contains:
  assumes "select_shaped m"
  shows "contains (codes ''SELECT'') (upper m)"
proof -
  from assms obtain p w r where p: "casefold p = ''SELECT''"
    and m: "m = p @ w # takeWhile (\<lambda>c. c \<noteq> CHR '';'') r @ '';''"
    by (auto simp: select_shaped_def)
  have "upper p = codes (casefold p)"
    by (rule casefold_letters_upper) (simp add: p)
  then have "upper p = codes ''SELECT''" by (simp add: p)
  then have "prefix (codes ''SELECT'') (upper m)" by (simp add: m)
  moreover have "codes ''SELECT'' \<noteq> []" by (simp add: codes_def)
  ultimately show ?thesis by (rule contains_prefix)
qed

subsection \<open>Extraction on the sample texts\<close>

lemma extract_fenced_answer: "extract_sql_from_markdown fenced_answer = Inr answer_sql"
  by code_simp

lemma chart_extract_fenced_answer: "chart_extract_sql fenced_answer = Inr answer_sql"
  by code_simp

lemma block_of_fenced_answer: "search_sql_block fenced_answer = Some answer_sql"
  by code_simp

lemma strip_answer_sql: "strip answer_sql = answer_sql"
  by code_simp

lemma answer_sql_shaped: "select_shaped answer_sql"
proof -
  have "search_select answer_sql = Some answer_sql" by code_simp
  then show ?thesis by (rule search_select_shaped)
qed

lemma answer_sql_unfenced:
  "search_sql_block answer_sql = None \<and> search_code_block answer_sql = None"
  by code_simp

text \<open>
  A sharp s is upper-cased to \<open>SS\<close>, so that the last resort finds the word \<open>SELECT\<close> in
  the upper-cased text of a response that does not hold it in any letter case.
\<close>

lemma sharp_s_select_is_extracted:
  "extract_sql_from_markdown (CHR 0xDF # ''elect 1 from t'')
     = Inr (CHR 0xDF # ''elect 1 from t;'')
   \<and> chart_extract_sql (CHR 0xDF # ''elect 1 from t'') = Inr (CHR 0xDF # ''elect 1 from t'')"
  by code_simp

text \<open>A statement that the direct match of \<open>SELECT \<dots> ;\<close> returns has the shape of a match.\<close>

lemma select_match_output_is_shaped:
  assumes "extract_sql_from_markdown t = Inr s"
    and "search_sql_block t = None \<and> search_code_block t = None"
    and "search_select t \<noteq> None"
  shows "select_shaped s"
proof -
  from assms(3) obtain m where m: "search_select t = Some m" by auto
  then have sh: "select_shaped m" by (rule search_select_shaped)
  from assms(1,2) m have "s = strip m" by (simp add: extract_sql_from_markdown_def)
  with sh show ?thesis by (simp add: shaped_strip)
qed

lemma extract_refusal:
  "extract_sql_from_markdown ''I can only answer questions about the farm data.'' =
     Inl (ValueError
       ''Could not extract SQL from response: I can only answer questions about the farm data....'')"
  by code_simp

section \<open>Facts about the external calls\<close>

lemma moderation_events:
  "run_openai_moderation service text = (r, ev) \<Longrightarrow> ev = [ModerationCall text]"
  by (auto simp: run_openai_moderation_def)

lemma jailbreak_events:
  "run_jailbreak_detection model text th = (r, ev) \<Longrightarrow> ev = [JailbreakCall text th]"
  by (auto simp: run_jailbreak_detection_def Let_def)

lemma security_events:
  "run_security_checks sv text th = (r, ev) \<Longrightarrow>
     ev = [ModerationCall text] \<or> ev = [ModerationCall text, JailbreakCall text th]"
  by (auto simp: run_security_checks_def check_all_def Let_def split: prod.splits if_splits
      dest!: moderation_events jailbreak_events)

lemma security_chart_events:
  "run_security_checks sv text th = (r, ev) \<Longrightarrow> list_all chart_event ev"
  by (drule security_events) auto

lemma chart_sql_events: "generate_chart_sql sv q = (r, ev) \<Longrightarrow> ev = [ChartTranslatorCall q]"
  by (auto simp: generate_chart_sql_def)

lemma specification_events:
  "generate_chart_specification sv q sql rows = (r, ev) \<Longrightarrow> ev = [] \<or> ev = [SpecifierCall q]"
  by (auto simp: generate_chart_specification_def split: if_splits)

lemma mcp_events:
  "generate_chart_specification_mcp sv q sql rows url = (r, ev) \<Longrightarrow> list_all chart_event ev"
  by (auto simp: generate_chart_specification_mcp_def Let_def
      split: if_splits prod.splits mcp_outcome.splits sum.splits dest!: specification_events)

lemma specify_events: "specify sv wi sql rows = (r, ev) \<Longrightarrow> list_all chart_event ev"
  by (auto simp: specify_def split: if_splits dest: mcp_events dest!: specification_events)

lemma chart_workflow_events:
  "run_chart_workflow sv wi = (r, ev) \<Longrightarrow> list_all chart_event ev"
  by (auto simp: run_chart_workflow_def Let_def
      split: prod.splits sum.splits if_splits
      dest: security_chart_events specify_events dest!: chart_sql_events)

lemma local_chart_workflow_events:
  "run_chart_workflow_local sv wi = (r, ev) \<Longrightarrow> list_all chart_event ev"
  by (auto simp: run_chart_workflow_local_def Let_def
      split: prod.splits sum.splits if_splits
      dest: security_chart_events specify_events dest!: chart_sql_events)

lemma sample_security:
  "run_security_checks (sample_services\<lparr>sql_model := m\<rparr>) question (1 / 2) =
     (\<lparr>blocked = False, reason = None,
       checks = [(''openai_moderation'', empty_check\<lparr>cr_provider := Some ''OpenAI Moderation''\<rparr>),
                 (''jailbreak_detection'',
                  empty_check\<lparr>cr_confidence := Some (1 / 10),
                    cr_provider := Some ''Jailbreak Sentinel v2''\<rparr>)],
       details = None, safe_text = Some question\<rparr>,
      [ModerationCall question, JailbreakCall question (1 / 2)])"
  by (simp add: run_security_checks_def check_all_def run_openai_moderation_def
      run_jailbreak_detection_def detect_def sample_services_def passing_def harmless_def
      empty_check_def)

section \<open>Facts about the executors\<close>


lemma execute_snowflake_query_closes:
  "cursor_error db = None \<Longrightarrow> snd (execute_snowflake_query db sql) = no_handles"
  by (simp add: execute_snowflake_query_def split: option.splits sum.splits)

lemma execute_sqlite_query_closes:
  "lite_cursor_error db = None \<Longrightarrow> snd (execute_sqlite_query db sql) = no_handles"
  by (simp add: execute_sqlite_query_def Let_def split: option.splits sum.splits)

lemma str_list_of_strs: "str_list_of (map JStr cs) = Some cs"
  by (induction cs) (simp_all add: str_of_def)

section \<open>The claims\<close>

text \<open>
  C1. A text that the content-moderation classifier flags is blocked with the reason
  \<open>harmful_content\<close>, in the text workflow and in both chart workflows, and the only
  external call of the request is the moderation call: the jailbreak classifier, the
  translator and the store are not called.
\<close>

theorem flagged_text_is_blocked_before_any_call:
  assumes "moderation sv (input_as_text wi) = ModFlagged cats"
  shows "blocked (fst (run_security_checks sv (input_as_text wi) th))
       \<and> reason (fst (run_security_checks sv (input_as_text wi) th)) = Some ''harmful_content''
       \<and> snd (run_security_checks sv (input_as_text wi) th) = [ModerationCall (input_as_text wi)]
       \<and> run_workflow sv wi =
           (Inr (failure ''Security check failed: harmful_content''),
            [ModerationCall (input_as_text wi)])
       \<and> success (fst (run_chart_workflow sv wi)) = False
       \<and> error (fst (run_chart_workflow sv wi)) = Some ''Security check failed: harmful_content''
       \<and> snd (run_chart_workflow sv wi) = [ModerationCall (input_as_text wi)]
       \<and> success (fst (run_chart_workflow_local sv wi)) = False
       \<and> error (fst (run_chart_workflow_local sv wi))
           = Some ''Security check failed: harmful_content''
       \<and> snd (run_chart_workflow_local sv wi) = [ModerationCall (input_as_text wi)]"
proof -
  let ?m = "fst (run_openai_moderation (moderation sv) (input_as_text wi))"
  have sec: "run_security_checks sv (input_as_text wi) th =
           (\<lparr>blocked = True, reason = Some ''harmful_content'',
             checks = [(''openai_moderation'', ?m)], details = Some ?m, safe_text = None\<rparr>,
            [ModerationCall (input_as_text wi)])" for th
    using assms
    by (simp add: run_security_checks_def check_all_def run_openai_moderation_def empty_check_def)
  show ?thesis
    by (simp add: sec run_workflow_def run_chart_workflow_def run_chart_workflow_local_def
          reason_text_def failure_def Let_def)
qed

theorem flagged_text_is_blocked_before_any_call_witness:
  "moderation (sample_services\<lparr>moderation := flagging\<rparr>) question = ModFlagged [''violence'']
   \<and> run_workflow (sample_services\<lparr>moderation := flagging\<rparr>)
       \<lparr>input_as_text = question, use_mcp_server = False, mcp_server_url = None,
        use_local_db = False\<rparr>
     = (Inr (failure ''Security check failed: harmful_content''), [ModerationCall question])
   \<and> snd (run_chart_workflow (sample_services\<lparr>moderation := flagging\<rparr>)
       \<lparr>input_as_text = question, use_mcp_server = False, mcp_server_url = None,
        use_local_db = False\<rparr>) = [ModerationCall question]"
  using flagged_text_is_blocked_before_any_call
    [of "sample_services\<lparr>moderation := flagging\<rparr>"
        "\<lparr>input_as_text = question, use_mcp_server = False, mcp_server_url = None,
          use_local_db = False\<rparr>" "[''violence'']"]
  by (simp add: flagging_def)

text \<open>
  C2, as the specification states it, fails: a fenced \<open>sql\<close> block is returned as it is,
  here a \<open>DROP TABLE\<close> statement, which violates the invariant.
\<close>

theorem fenced_drop_statement_is_extracted:
  "extract_sql_from_markdown ''```sql\<newline>DROP TABLE SWINE_ALERT;\<newline>```''
     = Inr ''DROP TABLE SWINE_ALERT;''
   \<and> chart_extract_sql ''```sql\<newline>DROP TABLE SWINE_ALERT;\<newline>```''
     = Inr ''DROP TABLE SWINE_ALERT;''
   \<and> \<not> spec_SqlStatement_invariant ''DROP TABLE SWINE_ALERT;''"
  by code_simp

text \<open>
  C2, amended. The extraction validates nothing. From a response with a fenced \<open>sql\<close>
  block, both translators return the content of the block, stripped; from any other
  response, a string \<open>s\<close> that they return is such that \<open>s.upper()\<close> contains the word
  \<open>SELECT\<close>.
\<close>

theorem extracted_sql_is_block_or_has_select:
  "(search_sql_block t = Some g \<longrightarrow>
      extract_sql_from_markdown t = Inr (strip g) \<and> chart_extract_sql t = Inr (strip g))
   \<and> (search_sql_block t = None \<longrightarrow>
        (extract_sql_from_markdown t = Inr s \<or> chart_extract_sql t = Inr s) \<longrightarrow>
        contains (codes ''SELECT'') (upper s))"
proof (intro conjI impI)
  assume "search_sql_block t = Some g"
  then show "extract_sql_from_markdown t = Inr (strip g)" "chart_extract_sql t = Inr (strip g)"
    by (simp_all add: extract_sql_from_markdown_def chart_extract_sql_def)
next
  assume n: "search_sql_block t = None"
    and e: "extract_sql_from_markdown t = Inr s \<or> chart_extract_sql t = Inr s"
  from e show "contains (codes ''SELECT'') (upper s)"
  proof
    assume "extract_sql_from_markdown t = Inr s"
    with n show ?thesis
      by (auto simp: extract_sql_from_markdown_def Let_def strip_keeps_SELECT
            shaped_strip shaped_contains contains_append_right
          split: option.splits if_splits dest!: search_select_shaped)
  next
    assume "chart_extract_sql t = Inr s"
    with n show ?thesis
      by (auto simp: chart_extract_sql_def Let_def strip_keeps_SELECT
          split: option.splits if_splits)
  qed
qed

theorem extracted_sql_is_block_or_has_select_witness:
  "search_sql_block fenced_answer = Some answer_sql
   \<and> extract_sql_from_markdown fenced_answer = Inr answer_sql
   \<and> search_sql_block ''select FARM_NAME from SWINE_ALERT'' = None
   \<and> extract_sql_from_markdown ''select FARM_NAME from SWINE_ALERT''
       = Inr ''select FARM_NAME from SWINE_ALERT;''
   \<and> contains (codes ''SELECT'') (upper ''select FARM_NAME from SWINE_ALERT;'')"
proof -
  have a: "search_sql_block ''select FARM_NAME from SWINE_ALERT'' = None"
    by code_simp
  have b: "extract_sql_from_markdown ''select FARM_NAME from SWINE_ALERT''
       = Inr ''select FARM_NAME from SWINE_ALERT;''"
    by code_simp
  show ?thesis
    using extracted_sql_is_block_or_has_select [of fenced_answer answer_sql]
      extracted_sql_is_block_or_has_select
        [of "''select FARM_NAME from SWINE_ALERT''" _ "''select FARM_NAME from SWINE_ALERT;''"]
      a b block_of_fenced_answer strip_answer_sql
    by simp
qed

text \<open>
  C3, as the specification states it, fails: a confidence equal to the threshold does
  not block the request.
\<close>

theorem threshold_confidence_is_not_blocked:
  "\<not> cr_blocked (fst (run_openai_moderation passing question))
   \<and> at_threshold question = DetProbs (1 / 2) (1 / 2)
   \<and> \<not> blocked (fst (check_all passing at_threshold question (1 / 2)))"
  by (simp add: check_all_def run_openai_moderation_def run_jailbreak_detection_def detect_def
      empty_check_def passing_def at_threshold_def)

text \<open>
  C3, amended. For a text that passes content moderation and on which the classifier
  answers, the request is blocked exactly when the jailbreak confidence is strictly
  greater than the threshold, and then the reason is \<open>jailbreak_attempt\<close>.
\<close>

theorem jailbreak_blocked_iff_above_threshold:
  assumes "\<not> cr_blocked (fst (run_openai_moderation service text))"
    and "model text = DetProbs p q"
  shows "blocked (fst (check_all service model text th)) = (p > th)
       \<and> (p > th \<longrightarrow> reason (fst (check_all service model text th)) = Some ''jailbreak_attempt'')"
  using assms
  by (auto simp: check_all_def run_jailbreak_detection_def detect_def empty_check_def Let_def
      split: prod.splits)

theorem jailbreak_blocked_iff_above_threshold_witness:
  "\<not> cr_blocked (fst (run_openai_moderation passing question))
   \<and> hostile question = DetProbs (9 / 10) (1 / 10)
   \<and> blocked (fst (check_all passing hostile question (1 / 2)))
   \<and> reason (fst (check_all passing hostile question (1 / 2))) = Some ''jailbreak_attempt''"
  using jailbreak_blocked_iff_above_threshold
    [of passing question hostile "9 / 10" "1 / 10" "1 / 2"]
  by (simp add: run_openai_moderation_def passing_def hostile_def empty_check_def)

text \<open>
  C4, as the specification states it, fails: when the moderation service raises, the
  moderation check answers \<open>blocked = False\<close>, and the request goes on.
\<close>

theorem moderation_error_is_not_blocked:
  "unreachable_moderation question = ModRaises ''Connection error.''
   \<and> cr_blocked (fst (run_openai_moderation unreachable_moderation question)) = False
   \<and> blocked (fst (check_all unreachable_moderation harmless question (1 / 2))) = False"
  by (simp add: check_all_def run_openai_moderation_def run_jailbreak_detection_def detect_def
      unreachable_moderation_def harmless_def empty_check_def)

text \<open>
  C4, amended. Both checks fail open. When the jailbreak classifier raises, \<open>detect\<close>
  answers \<open>is_jailbreak = False\<close> with the error in its own result, the jailbreak check is
  not blocked (its result holds the confidence 0.0 and not the error), and a request that
  moderation did not block passes the gate. When the moderation service raises, the
  moderation check is not blocked and holds the error, the request goes on to the
  jailbreak check, and the gate blocks exactly when that check blocks.
\<close>

theorem both_checks_fail_open:
  "(model text = DetRaises e \<longrightarrow>
      \<not> is_jailbreak (detect model text th)
      \<and> det_error (detect model text th) = Some e
      \<and> \<not> cr_blocked (fst (run_jailbreak_detection model text th))
      \<and> fst (run_jailbreak_detection model text th)
          = empty_check\<lparr>cr_confidence := Some 0, cr_provider := Some ''Jailbreak Sentinel v2''\<rparr>
      \<and> (\<not> cr_blocked (fst (run_openai_moderation service text)) \<longrightarrow>
            \<not> blocked (fst (check_all service model text th))
            \<and> safe_text (fst (check_all service model text th)) = Some text
            \<and> snd (check_all service model text th)
                = [ModerationCall text, JailbreakCall text th]))
   \<and> (service text = ModRaises e' \<longrightarrow>
        \<not> cr_blocked (fst (run_openai_moderation service text))
        \<and> fst (run_openai_moderation service text) = empty_check\<lparr>cr_error := Some e'\<rparr>
        \<and> snd (check_all service model text th)
            = [ModerationCall text, JailbreakCall text th]
        \<and> blocked (fst (check_all service model text th))
            = cr_blocked (fst (run_jailbreak_detection model text th))
        \<and> checks (fst (check_all service model text th))
            = [(''openai_moderation'', empty_check\<lparr>cr_error := Some e'\<rparr>),
               (''jailbreak_detection'', fst (run_jailbreak_detection model text th))])"
  by (auto simp: check_all_def run_jailbreak_detection_def detect_def run_openai_moderation_def
      empty_check_def Let_def split: prod.splits)

theorem both_checks_fail_open_witness:
  "unloaded question = DetRaises ''HF_TOKEN not found in environment''
   \<and> \<not> cr_blocked (fst (run_openai_moderation passing question))
   \<and> \<not> blocked (fst (check_all passing unloaded question (1 / 2)))
   \<and> unreachable_moderation question = ModRaises ''Connection error.''
   \<and> snd (check_all unreachable_moderation hostile question (1 / 2))
       = [ModerationCall question, JailbreakCall question (1 / 2)]
   \<and> blocked (fst (check_all unreachable_moderation hostile question (1 / 2)))"
  using both_checks_fail_open
    [of unloaded question "''HF_TOKEN not found in environment''" "1 / 2" passing]
    both_checks_fail_open
    [of hostile question _ "1 / 2" unreachable_moderation "''Connection error.''"]
  by (simp add: unloaded_def unreachable_moderation_def passing_def hostile_def
      run_openai_moderation_def run_jailbreak_detection_def detect_def empty_check_def)

text \<open>
  C5. The text workflow does not catch the error of its translator: when the model's
  answer holds no SQL, \<open>run_workflow\<close> raises the \<open>ValueError\<close> of the extraction instead
  of returning a failure dictionary, and so does the unified workflow that routes to it.
\<close>

theorem text_workflow_raises_on_translation_error:
  "run_workflow (sample_services\<lparr>sql_model := refusing\<rparr>) \<lparr>input_as_text = question\<rparr> =
     (Inl (ValueError
        ''Could not extract SQL from response: I can only answer questions about the farm data....''),
      [ModerationCall question, JailbreakCall question (1 / 2), TranslatorCall question])
   \<and> fst (run_unified_workflow (sample_services\<lparr>sql_model := refusing\<rparr>)
       \<lparr>input_as_text = question, use_mcp_server = False, mcp_server_url = None,
        use_local_db = False, force_chart = False, force_text = True\<rparr>) =
     Inl (ValueError
        ''Could not extract SQL from response: I can only answer questions about the farm data....'')"
  by (simp add: run_unified_workflow_def route_def run_workflow_def sample_security Let_def
      refusing_def extract_refusal)

text \<open>
  C6, as the specification states it, fails: the statement taken from a fenced block has
  no fenced block in it, and extracting from it again appends a semicolon.
\<close>

theorem fenced_select_is_not_a_fixed_point:
  "extract_sql_from_markdown ''```sql\<newline>SELECT FARM_NAME FROM SWINE_ALERT LIMIT 10\<newline>```''
     = Inr ''SELECT FARM_NAME FROM SWINE_ALERT LIMIT 10''
   \<and> search_sql_block ''SELECT FARM_NAME FROM SWINE_ALERT LIMIT 10'' = None
   \<and> search_code_block ''SELECT FARM_NAME FROM SWINE_ALERT LIMIT 10'' = None
   \<and> extract_sql_from_markdown ''SELECT FARM_NAME FROM SWINE_ALERT LIMIT 10''
     = Inr ''SELECT FARM_NAME FROM SWINE_ALERT LIMIT 10;''
   \<and> ''SELECT FARM_NAME FROM SWINE_ALERT LIMIT 10;'' \<noteq> ''SELECT FARM_NAME FROM SWINE_ALERT LIMIT 10''"
  by code_simp

text \<open>
  C6, amended. Extraction is idempotent on the statements of the shape of a match of
  \<open>SELECT \<dots> ;\<close>: the word \<open>SELECT\<close> in any letter case, a white-space character, and a text
  whose only semicolon is its last character. Such a string, if it contains no fenced
  block, is returned unchanged by the extraction of \<open>workflow.py\<close> and by that of
  \<open>utils.py\<close>, whichever step of an earlier extraction produced it.
\<close>

theorem shaped_statement_is_a_fixed_point:
  assumes sh: "select_shaped s"
    and nf: "search_sql_block s = None \<and> search_code_block s = None"
  shows "extract_sql_from_markdown s = Inr s \<and> utils_extract_sql_from_markdown s = Inr s"
proof -
  have "search_select s = Some s" "strip s = s"
    using sh by (simp_all add: shaped_search_select shaped_strip)
  with nf show ?thesis
    by (simp add: extract_sql_from_markdown_def utils_extract_sql_from_markdown_def)
qed

theorem shaped_statement_is_a_fixed_point_witness:
  "select_shaped answer_sql
   \<and> search_sql_block answer_sql = None \<and> search_code_block answer_sql = None
   \<and> extract_sql_from_markdown fenced_answer = Inr answer_sql
   \<and> extract_sql_from_markdown answer_sql = Inr answer_sql
   \<and> utils_extract_sql_from_markdown answer_sql = Inr answer_sql"
  using shaped_statement_is_a_fixed_point [OF answer_sql_shaped answer_sql_unfenced]
    answer_sql_shaped answer_sql_unfenced extract_fenced_answer
  by simp

text \<open>
  C7. When the store returns zero rows, the chart workflow returns a failure dictionary
  (\<open>Query returned no results\<close>) after the store call, without asking for a chart
  specification, and the text workflow returns a success dictionary with the narrative
  that the interpreter gives for the empty result.
\<close>

theorem zero_rows_fail_chart_pass_text:
  assumes sec: "\<not> blocked (fst (run_security_checks sv (input_as_text wi) (1 / 2)))"
    and csql: "fst (generate_chart_sql sv (input_as_text wi)) = Inr csql"
    and cempty: "fst (execute_snowflake_query (snowflake sv) csql) = Inr []"
    and reply: "sql_model sv (input_as_text wi) = Inr reply"
    and tsql: "extract_sql_from_markdown reply = Inr tsql"
    and tempty: "fst (execute_snowflake_query (snowflake sv) tsql) = Inr []"
    and told: "interpreter sv (input_as_text wi) tsql [] = Inr narrative"
  shows "fst (run_chart_workflow sv wi)
           = (failure ''Query returned no results'')\<lparr>sql_query := Some csql\<rparr>
       \<and> success (fst (run_chart_workflow sv wi)) = False
       \<and> snd (run_chart_workflow sv wi)
           = snd (run_security_checks sv (input_as_text wi) (1 / 2))
             @ [ChartTranslatorCall (input_as_text wi), StoreCall csql]
       \<and> (\<exists>env. fst (run_workflow sv wi) = Inr env \<and> success env = True
             \<and> raw_results env = Some [] \<and> analysis env = Some narrative)"
proof -
  have ev: "snd (generate_chart_sql sv (input_as_text wi)) = [ChartTranslatorCall (input_as_text wi)]"
    by (simp add: generate_chart_sql_def)
  have chart: "run_chart_workflow sv wi =
      ((failure ''Query returned no results'')\<lparr>sql_query := Some csql\<rparr>,
       snd (run_security_checks sv (input_as_text wi) (1 / 2))
         @ [ChartTranslatorCall (input_as_text wi), StoreCall csql])"
    using sec csql cempty ev
    by (simp add: run_chart_workflow_def Let_def case_prod_beta)
  have narr: "fst (run_workflow sv wi) =
      Inr \<lparr>success = True, error = None, security_details = None,
           sql_query = Some tsql, raw_results = Some [], analysis = Some narrative,
           moderation_provider = Some ''OpenAI Moderation'', workflow_type = None,
           chart_spec = None, security_checks = None, row_count = None,
           database_name = None, suggestion = None, intent_confidence = None\<rparr>"
    using sec reply tsql tempty told
    by (simp add: run_workflow_def Let_def case_prod_beta)
  show ?thesis by (simp add: chart narr failure_def)
qed

theorem zero_rows_fail_chart_pass_text_witness:
  "\<not> blocked (fst (run_security_checks sample_services question (1 / 2)))
   \<and> fst (execute_snowflake_query (snowflake sample_services) answer_sql) = Inr []
   \<and> success (fst (run_chart_workflow sample_services
        \<lparr>input_as_text = question, use_mcp_server = False, mcp_server_url = None\<rparr>)) = False
   \<and> (\<exists>env. fst (run_workflow sample_services
        \<lparr>input_as_text = question, use_mcp_server = False, mcp_server_url = None\<rparr>) = Inr env
        \<and> success env = True \<and> raw_results env = Some []
        \<and> analysis env = Some ''No barns match the question.'')"
proof -
  let ?wi = "\<lparr>input_as_text = question, use_mcp_server = False, mcp_server_url = None\<rparr>"
  have sec: "\<not> blocked (fst (run_security_checks sample_services (input_as_text ?wi) (1 / 2)))"
    using sample_security [of answering] by (simp add: sample_services_def)
  have csql: "fst (generate_chart_sql sample_services (input_as_text ?wi)) = Inr answer_sql"
    by (simp add: generate_chart_sql_def sample_services_def answering_def
        chart_extract_fenced_answer)
  have empty: "fst (execute_snowflake_query (snowflake sample_services) answer_sql) = Inr []"
    by (simp add: execute_snowflake_query_def sample_services_def empty_store_def no_error_def
        no_rows_def)
  have reply: "sql_model sample_services (input_as_text ?wi) = Inr fenced_answer"
    by (simp add: sample_services_def answering_def)
  have told: "interpreter sample_services (input_as_text ?wi) answer_sql []
      = Inr ''No barns match the question.''"
    by (simp add: sample_services_def narrator_def)
  show ?thesis
    using zero_rows_fail_chart_pass_text
      [OF sec csql empty reply extract_fenced_answer empty told] sec empty
    by (simp add: failure_def)
qed

text \<open>
  C8, as the specification states it, fails: a specification of type \<open>line\<close> whose
  \<open>y_axis\<close> is a list of two columns is accepted.
\<close>

theorem line_chart_with_column_list_is_accepted:
  "fst (generate_chart_specification sample_services question answer_sql
          [[(''REPORT_DATE'', ''2025-10-28''), (''PNEUMONIA'', ''15''), (''FEVER'', ''6'')]])
     = Inr (spec_of_document Line (Columns [''PNEUMONIA'', ''FEVER'']))
   \<and> \<not> spec_ChartSpec_invariant (spec_of_document Line (Columns [''PNEUMONIA'', ''FEVER'']))"
  by (auto simp: generate_chart_specification_def sample_services_def line_of_columns_def
      new_ChartSpecification_def spec_document_def required_def optional_str_def int_or_def
      bool_or_def chart_kind_of_def str_of_def y_axis_of_def spec_of_document_def
      spec_ChartSpec_invariant_def is_list_def)

text \<open>
  C8, amended. The shape of \<open>y_axis\<close> is not tied to the chart type: from a document that
  is accepted, the document with any of the seven chart types and with \<open>y_axis\<close> a single
  column name is accepted, and so is the one with \<open>y_axis\<close> a list of column names.
\<close>

theorem y_axis_shape_is_free_of_chart_type:
  assumes "new_ChartSpecification d = Inr spec" and "chart_kind_of (JStr kind) = Some k"
  shows "new_ChartSpecification (d(''chart_type'' \<mapsto> JStr kind, ''y_axis'' \<mapsto> JStr c))
           = Inr (spec\<lparr>chart_type := k, y_axis := Column c\<rparr>)
       \<and> new_ChartSpecification
           (d(''chart_type'' \<mapsto> JStr kind, ''y_axis'' \<mapsto> JList (map JStr cs)))
           = Inr (spec\<lparr>chart_type := k, y_axis := Columns cs\<rparr>)"
proof -
  from assms(1) have ok: "required d ''x_axis'' str_of \<noteq> None"
    "required d ''title'' str_of \<noteq> None" "required d ''x_label'' str_of \<noteq> None"
    "required d ''y_label'' str_of \<noteq> None" "optional_str d ''color_by'' \<noteq> None"
    "int_or d ''height'' 450 \<noteq> None" "bool_or d ''show_legend'' True \<noteq> None"
    "required d ''reasoning'' str_of \<noteq> None"
    and spec: "spec = \<lparr>chart_type = the (required d ''chart_type'' chart_kind_of),
       x_axis = the (required d ''x_axis'' str_of), y_axis = the (required d ''y_axis'' y_axis_of),
       title = the (required d ''title'' str_of), x_label = the (required d ''x_label'' str_of),
       y_label = the (required d ''y_label'' str_of), color_by = the (optional_str d ''color_by''),
       height = the (int_or d ''height'' 450), show_legend = the (bool_or d ''show_legend'' True),
       reasoning = the (required d ''reasoning'' str_of)\<rparr>"
    by (simp_all add: new_ChartSpecification_def Let_def split: if_splits)
  show ?thesis
    using ok assms(2)
    by (simp add: new_ChartSpecification_def Let_def required_def optional_str_def int_or_def
        bool_or_def y_axis_of_def str_list_of_strs spec)
qed

theorem y_axis_shape_is_free_of_chart_type_witness:
  "new_ChartSpecification (spec_document ''line'' (JStr ''DC_PERCENT''))
     = Inr (spec_of_document Line (Column ''DC_PERCENT''))
   \<and> chart_kind_of (JStr ''pie'') = Some Pie
   \<and> new_ChartSpecification
       ((spec_document ''line'' (JStr ''DC_PERCENT''))
          (''chart_type'' \<mapsto> JStr ''pie'',
           ''y_axis'' \<mapsto> JList (map JStr [''PNEUMONIA'', ''FEVER''])))
     = Inr ((spec_of_document Line (Column ''DC_PERCENT''))
              \<lparr>chart_type := Pie, y_axis := Columns [''PNEUMONIA'', ''FEVER'']\<rparr>)"
proof -
  have a: "new_ChartSpecification (spec_document ''line'' (JStr ''DC_PERCENT''))
     = Inr (spec_of_document Line (Column ''DC_PERCENT''))"
    by (auto simp: new_ChartSpecification_def spec_document_def required_def optional_str_def
        int_or_def bool_or_def chart_kind_of_def str_of_def y_axis_of_def spec_of_document_def)
  have b: "chart_kind_of (JStr ''pie'') = Some Pie"
    by (simp add: chart_kind_of_def)
  show ?thesis
    using y_axis_shape_is_free_of_chart_type [OF a b, of "''DC_PERCENT''" "[''PNEUMONIA'', ''FEVER'']"] a b
    by simp
qed


text \<open>
  C10. With \<open>force_chart\<close> and \<open>force_text\<close> both set, the intent is \<open>chart\<close> at confidence
  1.0, the request is handled by a chart workflow, whose result is returned with that
  confidence, and the intent classifier is not called.
\<close>

theorem force_chart_wins:
  assumes "force_chart wi \<and> force_text wi"
  shows "route sv wi = ((Chart, 1), [])
       \<and> fst (run_unified_workflow sv wi) =
           Inr ((fst (if use_local_db wi
                      then run_chart_workflow_local sv
                             \<lparr>input_as_text = input_as_text wi,
                              use_mcp_server = use_mcp_server wi,
                              mcp_server_url = mcp_server_url wi, use_local_db = True\<rparr>
                      else run_chart_workflow sv
                             \<lparr>input_as_text = input_as_text wi,
                              use_mcp_server = use_mcp_server wi,
                              mcp_server_url = mcp_server_url wi\<rparr>))
                \<lparr>intent_confidence := Some 1\<rparr>)
       \<and> IntentCall q \<notin> set (snd (run_unified_workflow sv wi))
       \<and> TranslatorCall q \<notin> set (snd (run_unified_workflow sv wi))"
proof -
  have r: "route sv wi = ((Chart, 1), [])" using assms by (simp add: route_def)
  have ev: "list_all chart_event (snd (run_unified_workflow sv wi))"
    by (auto simp: run_unified_workflow_def r Let_def split: prod.splits
        dest: chart_workflow_events local_chart_workflow_events)
  have "\<not> chart_event (IntentCall q)" "\<not> chart_event (TranslatorCall q)" by simp_all
  with ev have "IntentCall q \<notin> set (snd (run_unified_workflow sv wi))"
    "TranslatorCall q \<notin> set (snd (run_unified_workflow sv wi))"
    by (auto simp: list_all_iff)
  then show ?thesis using r
    by (simp add: run_unified_workflow_def Let_def split: prod.splits)
qed

theorem force_chart_wins_witness:
  "force_chart \<lparr>input_as_text = question, use_mcp_server = False, mcp_server_url = None,
      use_local_db = False, force_chart = True, force_text = True\<rparr>
   \<and> force_text \<lparr>input_as_text = question, use_mcp_server = False, mcp_server_url = None,
      use_local_db = False, force_chart = True, force_text = True\<rparr>
   \<and> route sample_services \<lparr>input_as_text = question, use_mcp_server = False,
      mcp_server_url = None, use_local_db = False, force_chart = True, force_text = True\<rparr>
     = ((Chart, 1), [])
   \<and> IntentCall question \<notin> set (snd (run_unified_workflow sample_services
      \<lparr>input_as_text = question, use_mcp_server = False, mcp_server_url = None,
       use_local_db = False, force_chart = True, force_text = True\<rparr>))"
  using force_chart_wins
    [of "\<lparr>input_as_text = question, use_mcp_server = False, mcp_server_url = None,
          use_local_db = False, force_chart = True, force_text = True\<rparr>"
        sample_services question]
  by simp

end
